theory Spec2Isabelle
  imports Complex_Main
begin

section \<open>JavaScript numbers\<close>

text \<open>
  A JavaScript \<^verbatim>\<open>number\<close> is an IEEE double. The two infinities and NaN are kept,
  because the source relies on how they behave: \<^verbatim>\<open>0 / 0\<close> and \<^verbatim>\<open>0 * Infinity\<close> are NaN,
  every comparison with NaN is false, and NaN and \<^verbatim>\<open>0\<close> are the falsy numbers. A finite
  double is represented by the real it denotes, and the arithmetic on finite values is
  the exact one: rounding and the sign of zero are not modelled. The results below
  therefore evaluate arithmetic only where doubles are exact too (zero, one and the small
  integers of the control values and constants), compare values, or state equalities
  between two runs of the same operations.
\<close>

datatype jsnum = Fin real | PInf | NInf | NaN

fun jneg :: "jsnum \<Rightarrow> jsnum" where
  "jneg (Fin a) = Fin (- a)"
| "jneg PInf = NInf"
| "jneg NInf = PInf"
| "jneg NaN = NaN"

fun jadd :: "jsnum \<Rightarrow> jsnum \<Rightarrow> jsnum" where
  "jadd (Fin a) (Fin b) = Fin (a + b)"
| "jadd NaN _ = NaN"
| "jadd _ NaN = NaN"
| "jadd PInf NInf = NaN"
| "jadd NInf PInf = NaN"
| "jadd PInf _ = PInf"
| "jadd _ PInf = PInf"
| "jadd NInf _ = NInf"
| "jadd _ NInf = NInf"

definition jsub :: "jsnum \<Rightarrow> jsnum \<Rightarrow> jsnum" where
  "jsub a b = jadd a (jneg b)"

text \<open>The sign of a product or quotient with an infinite operand.\<close>

definition signed_inf :: "bool \<Rightarrow> jsnum" where
  "signed_inf positive = (if positive then PInf else NInf)"

fun jmul :: "jsnum \<Rightarrow> jsnum \<Rightarrow> jsnum" where
  "jmul (Fin a) (Fin b) = Fin (a * b)"
| "jmul NaN _ = NaN"
| "jmul _ NaN = NaN"
| "jmul (Fin a) PInf = (if a = 0 then NaN else signed_inf (0 < a))"
| "jmul (Fin a) NInf = (if a = 0 then NaN else signed_inf (a < 0))"
| "jmul PInf (Fin b) = (if b = 0 then NaN else signed_inf (0 < b))"
| "jmul NInf (Fin b) = (if b = 0 then NaN else signed_inf (b < 0))"
| "jmul PInf PInf = PInf"
| "jmul NInf NInf = PInf"
| "jmul PInf NInf = NInf"
| "jmul NInf PInf = NInf"

fun jdiv :: "jsnum \<Rightarrow> jsnum \<Rightarrow> jsnum" where
  "jdiv (Fin a) (Fin b) =
     (if b = 0 then (if a = 0 then NaN else signed_inf (0 < a)) else Fin (a / b))"
| "jdiv NaN _ = NaN"
| "jdiv _ NaN = NaN"
| "jdiv (Fin a) _ = Fin 0"
| "jdiv PInf (Fin b) = signed_inf (0 \<le> b)"
| "jdiv NInf (Fin b) = signed_inf (b < 0)"
| "jdiv _ _ = NaN"

fun jsqrt :: "jsnum \<Rightarrow> jsnum" where
  "jsqrt (Fin a) = (if a < 0 then NaN else Fin (sqrt a))"
| "jsqrt PInf = PInf"
| "jsqrt _ = NaN"

fun jcos :: "jsnum \<Rightarrow> jsnum" where
  "jcos (Fin a) = Fin (cos a)"
| "jcos _ = NaN"

fun jsin :: "jsnum \<Rightarrow> jsnum" where
  "jsin (Fin a) = Fin (sin a)"
| "jsin _ = NaN"

fun jlt :: "jsnum \<Rightarrow> jsnum \<Rightarrow> bool" where
  "jlt (Fin a) (Fin b) = (a < b)"
| "jlt NaN _ = False"
| "jlt _ NaN = False"
| "jlt _ NInf = False"
| "jlt PInf _ = False"
| "jlt _ _ = True"

definition jgt :: "jsnum \<Rightarrow> jsnum \<Rightarrow> bool" where
  "jgt a b = jlt b a"

fun jle :: "jsnum \<Rightarrow> jsnum \<Rightarrow> bool" where
  "jle NaN _ = False"
| "jle _ NaN = False"
| "jle a b = (a = b \<or> jlt a b)"

definition jge :: "jsnum \<Rightarrow> jsnum \<Rightarrow> bool" where
  "jge a b = jle b a"

text \<open>Truthiness of a number, and \<^verbatim>\<open>a || b\<close> on numbers.\<close>

fun truthy :: "jsnum \<Rightarrow> bool" where
  "truthy (Fin a) = (a \<noteq> 0)"
| "truthy NaN = False"
| "truthy _ = True"

definition jor :: "jsnum \<Rightarrow> jsnum \<Rightarrow> jsnum" where
  "jor a b = (if truthy a then a else b)"

text \<open>\<^verbatim>\<open>b ? 1 : 0\<close>\<close>

definition b2n :: "bool \<Rightarrow> jsnum" where
  "b2n b = (if b then Fin 1 else Fin 0)"

section \<open>The control store (src/hooks/useStore.ts)\<close>

record ControlsState =
  forward :: bool
  backward :: bool
  left :: bool
  right :: bool
  jump :: bool
  fire :: bool

text \<open>
  \<^verbatim>\<open>Partial<ControlsState>\<close>: every flag may be absent. (The \<^verbatim>\<open>set\<close> member of the
  interface is the setter itself; no caller passes it and it is left out.)
\<close>

record PartialControls =
  p_forward :: "bool option"
  p_backward :: "bool option"
  p_left :: "bool option"
  p_right :: "bool option"
  p_jump :: "bool option"
  p_fire :: "bool option"

definition no_change :: PartialControls where
  "no_change = \<lparr>p_forward = None, p_backward = None, p_left = None, p_right = None,
                 p_jump = None, p_fire = None\<rparr>"

text \<open>The initial store: all six flags false.\<close>

definition useStore_init :: ControlsState where
  "useStore_init = \<lparr>forward = False, backward = False, left = False, right = False,
                     jump = False, fire = False\<rparr>"

text \<open>
  \<^verbatim>\<open>set: (state) => set(state)\<close> hands the partial state to the store library's setter with
  no replace flag, which assigns the given members over a copy of the current state.
\<close>

definition merge_flag :: "bool option \<Rightarrow> bool \<Rightarrow> bool" where
  "merge_flag new old = (case new of None \<Rightarrow> old | Some v \<Rightarrow> v)"

definition store_set :: "PartialControls \<Rightarrow> ControlsState \<Rightarrow> ControlsState" where
  "store_set p s =
     \<lparr>forward = merge_flag (p_forward p) (forward s),
      backward = merge_flag (p_backward p) (backward s),
      left = merge_flag (p_left p) (left s),
      right = merge_flag (p_right p) (right s),
      jump = merge_flag (p_jump p) (jump s),
      fire = merge_flag (p_fire p) (fire s)\<rparr>"

section \<open>The virtual joystick (Hud, src/components/Game.tsx)\<close>

text \<open>
  The \<^verbatim>\<open>move\<close> handler receives \<^verbatim>\<open>angle.degree\<close> and \<^verbatim>\<open>force\<close> and, above the force
  threshold, sets the four directional flags in one call of the setter.
\<close>

definition joystick_move :: "jsnum \<Rightarrow> jsnum \<Rightarrow> ControlsState \<Rightarrow> ControlsState" where
  "joystick_move degree force s =
     (if jgt force (Fin 0.2) then
        store_set
          (no_change
             \<lparr>p_forward := Some (jgt degree (Fin 45) \<and> jlt degree (Fin 135)),
              p_backward := Some (jgt degree (Fin 225) \<and> jlt degree (Fin 315)),
              p_right := Some (jle degree (Fin 45) \<or> jge degree (Fin 315)),
              p_left := Some (jge degree (Fin 135) \<and> jle degree (Fin 225))\<rparr>) s
      else s)"

text \<open>The \<^verbatim>\<open>end\<close> handler releases the four directions.\<close>

definition joystick_end :: "ControlsState \<Rightarrow> ControlsState" where
  "joystick_end s =
     store_set (no_change\<lparr>p_forward := Some False, p_backward := Some False,
                          p_left := Some False, p_right := Some False\<rparr>) s"

section \<open>Vectors, quaternions and Euler angles (the 3D library's arithmetic)\<close>

record Vector3 =
  vec_x :: jsnum
  vec_y :: jsnum
  vec_z :: jsnum

record Quaternion =
  q_x :: jsnum
  q_y :: jsnum
  q_z :: jsnum
  q_w :: jsnum

datatype EulerOrder = XYZ | YXZ | ZXY | ZYX | YZX | XZY

record Euler =
  e_x :: jsnum
  e_y :: jsnum
  e_z :: jsnum
  e_order :: EulerOrder

text \<open>
  The library's vector methods update the receiver and return it, so that calls chain;
  each is modelled as a function from the receiver's old value to its new one.
\<close>

definition new_Vector3 :: "jsnum \<Rightarrow> jsnum \<Rightarrow> jsnum \<Rightarrow> Vector3" where
  "new_Vector3 a b c = \<lparr>vec_x = a, vec_y = b, vec_z = c\<rparr>"

definition subVectors :: "Vector3 \<Rightarrow> Vector3 \<Rightarrow> Vector3" where
  "subVectors a b =
     new_Vector3 (jsub (vec_x a) (vec_x b)) (jsub (vec_y a) (vec_y b)) (jsub (vec_z a) (vec_z b))"

definition multiplyScalar :: "jsnum \<Rightarrow> Vector3 \<Rightarrow> Vector3" where
  "multiplyScalar k v = new_Vector3 (jmul (vec_x v) k) (jmul (vec_y v) k) (jmul (vec_z v) k)"

text \<open>\<^verbatim>\<open>divideScalar(s)\<close> is \<^verbatim>\<open>multiplyScalar(1 / s)\<close>.\<close>

definition divideScalar :: "jsnum \<Rightarrow> Vector3 \<Rightarrow> Vector3" where
  "divideScalar k v = multiplyScalar (jdiv (Fin 1) k) v"

definition length_vec :: "Vector3 \<Rightarrow> jsnum" where
  "length_vec v =
     jsqrt (jadd (jadd (jmul (vec_x v) (vec_x v)) (jmul (vec_y v) (vec_y v)))
                 (jmul (vec_z v) (vec_z v)))"

text \<open>\<^verbatim>\<open>normalize()\<close> is \<^verbatim>\<open>divideScalar(length() || 1)\<close>.\<close>

definition normalize :: "Vector3 \<Rightarrow> Vector3" where
  "normalize v = divideScalar (jor (length_vec v) (Fin 1)) v"

text \<open>\<^verbatim>\<open>Quaternion.setFromEuler\<close>: the product of the three axis rotations in the Euler's order.\<close>

definition setFromEuler :: "Euler \<Rightarrow> Quaternion" where
  "setFromEuler e =
     (let c1 = jcos (jdiv (e_x e) (Fin 2)); c2 = jcos (jdiv (e_y e) (Fin 2));
          c3 = jcos (jdiv (e_z e) (Fin 2));
          s1 = jsin (jdiv (e_x e) (Fin 2)); s2 = jsin (jdiv (e_y e) (Fin 2));
          s3 = jsin (jdiv (e_z e) (Fin 2));
          scc = jmul (jmul s1 c2) c3; css = jmul (jmul c1 s2) s3;
          csc = jmul (jmul c1 s2) c3; scs = jmul (jmul s1 c2) s3;
          ccs = jmul (jmul c1 c2) s3; ssc = jmul (jmul s1 s2) c3;
          ccc = jmul (jmul c1 c2) c3; sss = jmul (jmul s1 s2) s3
      in case e_order e of
           XYZ \<Rightarrow> \<lparr>q_x = jadd scc css, q_y = jsub csc scs, q_z = jadd ccs ssc, q_w = jsub ccc sss\<rparr>
         | YXZ \<Rightarrow> \<lparr>q_x = jadd scc css, q_y = jsub csc scs, q_z = jsub ccs ssc, q_w = jadd ccc sss\<rparr>
         | ZXY \<Rightarrow> \<lparr>q_x = jsub scc css, q_y = jadd csc scs, q_z = jadd ccs ssc, q_w = jsub ccc sss\<rparr>
         | ZYX \<Rightarrow> \<lparr>q_x = jsub scc css, q_y = jadd csc scs, q_z = jsub ccs ssc, q_w = jadd ccc sss\<rparr>
         | YZX \<Rightarrow> \<lparr>q_x = jadd scc css, q_y = jadd csc scs, q_z = jsub ccs ssc, q_w = jsub ccc sss\<rparr>
         | XZY \<Rightarrow> \<lparr>q_x = jsub scc css, q_y = jsub csc scs, q_z = jadd ccs ssc, q_w = jadd ccc sss\<rparr>)"

text \<open>
  \<^verbatim>\<open>applyQuaternion(q)\<close>: with \<^verbatim>\<open>t = 2 * cross(q.xyz, v)\<close> the result is
  \<^verbatim>\<open>v + q.w * t + cross(q.xyz, t)\<close>, summed from left to right.
\<close>

definition applyQuaternion :: "Quaternion \<Rightarrow> Vector3 \<Rightarrow> Vector3" where
  "applyQuaternion q v =
     (let tx = jmul (Fin 2) (jsub (jmul (q_y q) (vec_z v)) (jmul (q_z q) (vec_y v)));
          ty = jmul (Fin 2) (jsub (jmul (q_z q) (vec_x v)) (jmul (q_x q) (vec_z v)));
          tz = jmul (Fin 2) (jsub (jmul (q_x q) (vec_y v)) (jmul (q_y q) (vec_x v)))
      in new_Vector3
           (jsub (jadd (jadd (vec_x v) (jmul (q_w q) tx)) (jmul (q_y q) tz)) (jmul (q_z q) ty))
           (jsub (jadd (jadd (vec_y v) (jmul (q_w q) ty)) (jmul (q_z q) tx)) (jmul (q_x q) tz))
           (jsub (jadd (jadd (vec_z v) (jmul (q_w q) tz)) (jmul (q_x q) ty)) (jmul (q_y q) tx)))"

definition applyEuler :: "Euler \<Rightarrow> Vector3 \<Rightarrow> Vector3" where
  "applyEuler e v = applyQuaternion (setFromEuler e) v"

section \<open>The player (Player, src/components/Game.tsx)\<close>

definition PLAYER_SPEED :: jsnum where
  "PLAYER_SPEED = Fin 5"

definition JUMP_FORCE :: jsnum where
  "JUMP_FORCE = Fin 6"

text \<open>
  The object in \<^verbatim>\<open>bodyRef.current\<close> as the frame callback uses it: \<^verbatim>\<open>linvel()\<close> and
  \<^verbatim>\<open>translation()\<close> return fresh copies of the body's linear velocity and position,
  \<^verbatim>\<open>setLinvel\<close> stores a new velocity. \<open>parent\<close> is what a call of its \<^verbatim>\<open>parent()\<close>
  method returns, and \<open>None\<close> when the object has no such method, so that the call throws
  a TypeError. The ref is declared and mounted as the physics library's rigid body, which
  has no \<^verbatim>\<open>parent\<close> method (it is a method of colliders): for the bodies of the running
  program \<open>parent\<close> is \<open>None\<close>.
\<close>

datatype error = TypeError

record 'w RigidBody =
  linvel :: Vector3
  translation :: Vector3
  parent :: "'w option"

text \<open>How a callback ends, with the state it leaves: by returning, or by a throw.\<close>

datatype 'a outcome = Returned 'a | Thrown error 'a

definition setLinvel :: "Vector3 \<Rightarrow> 'w RigidBody \<Rightarrow> 'w RigidBody" where
  "setLinvel v body = body\<lparr>linvel := v\<rparr>"

definition frontVector :: "ControlsState \<Rightarrow> Vector3" where
  "frontVector c = new_Vector3 (Fin 0) (Fin 0) (jsub (b2n (backward c)) (b2n (forward c)))"

definition sideVector :: "ControlsState \<Rightarrow> Vector3" where
  "sideVector c = new_Vector3 (jsub (b2n (left c)) (b2n (right c))) (Fin 0) (Fin 0)"

definition direction :: "ControlsState \<Rightarrow> Euler \<Rightarrow> Vector3" where
  "direction c rotation =
     applyEuler rotation
       (multiplyScalar PLAYER_SPEED (normalize (subVectors (frontVector c) (sideVector c))))"

text \<open>
  One run of the frame callback. \<open>bodyRef\<close> is \<^verbatim>\<open>bodyRef.current\<close> (\<open>None\<close> before the
  body is mounted), \<open>rotation\<close> is \<^verbatim>\<open>camera.rotation\<close>, and \<open>castRay world origin\<close> is
  the call \<^verbatim>\<open>world.castRay(new THREE.Ray(origin, {x: 0, y: -1, z: 0}), 1.1, true)\<close>, which
  throws or returns a hit or \<^verbatim>\<open>null\<close>. A throw leaves the body as the statements before it
  have set it.
\<close>

definition useFrame ::
  "ControlsState \<Rightarrow> Euler \<Rightarrow> ('w \<Rightarrow> Vector3 \<Rightarrow> error + 'hit option) \<Rightarrow>
   'w RigidBody option \<Rightarrow> 'w RigidBody option outcome"
where
  "useFrame c rotation castRay bodyRef =
     (case bodyRef of
        None \<Rightarrow> Returned None
      | Some body \<Rightarrow>
          (let velocity = linvel body;
               dir = direction c rotation;
               body1 = setLinvel (new_Vector3 (vec_x dir) (vec_y velocity) (vec_z dir)) body
           in case parent body1 of
                None \<Rightarrow> Thrown TypeError (Some body1)
              | Some world \<Rightarrow>
                  (let origin = translation body1
                   in case castRay world origin of
                        Inl e \<Rightarrow> Thrown e (Some body1)
                      | Inr ray \<Rightarrow>
                          if jump c \<and> ray \<noteq> None
                          then Returned (Some (setLinvel
                                 (new_Vector3 (vec_x velocity) JUMP_FORCE (vec_z velocity)) body1))
                          else Returned (Some body1))))"

section \<open>Blocks and the world (src/types.ts and Game, src/components/Game.tsx)\<close>

datatype BlockType = GRASS | DIRT | STONE | WOOD | LEAVES

text \<open>
  A block's \<^verbatim>\<open>id\<close>, \<^verbatim>\<open>pos\<close> and \<^verbatim>\<open>type\<close>. Positions are grid positions: the coordinates
  are modelled as integers.
\<close>

record Block =
  block_id :: string
  block_pos :: "int \<times> int \<times> int"
  block_type :: BlockType

definition WORLD_SIZE :: int where
  "WORLD_SIZE = 32"

text \<open>
  How a template literal prints an integer coordinate: decimal digits, most significant
  first, with a leading minus sign for a negative value.
\<close>

definition digit_char :: "nat \<Rightarrow> char" where
  "digit_char d = ''0123456789'' ! d"

fun nat_toString :: "nat \<Rightarrow> string" where
  "nat_toString n =
     (if 10 \<le> n then nat_toString (n div 10) @ [digit_char (n mod 10)] else [digit_char n])"

definition number_toString :: "int \<Rightarrow> string" where
  "number_toString i =
     (if i < 0 then CHR ''-'' # nat_toString (nat (- i)) else nat_toString (nat i))"

text \<open>The template \<^verbatim>\<open>`${x}-${y}-${z}`\<close>.\<close>

definition make_id :: "int \<Rightarrow> int \<Rightarrow> int \<Rightarrow> string" where
  "make_id x y z =
     number_toString x @ ''-'' @ number_toString y @ ''-'' @ number_toString z"

definition new_block :: "int \<Rightarrow> int \<Rightarrow> int \<Rightarrow> BlockType \<Rightarrow> Block" where
  "new_block x y z t = \<lparr>block_id = make_id x y z, block_pos = (x, y, z), block_type = t\<rparr>"

text \<open>
  The two nested loops of the generation effect, each as a recursion on its counter; the
  world under construction is the accumulator and \<^verbatim>\<open>push\<close> appends at its end.
\<close>

function z_loop :: "int \<Rightarrow> int \<Rightarrow> Block list \<Rightarrow> Block list" where
  "z_loop x z world =
     (if z < WORLD_SIZE div 2
      then z_loop x (z + 1)
             (world @ [new_block x 0 z STONE] @ [new_block x 1 z DIRT] @ [new_block x 2 z GRASS])
      else world)"
  by pat_completeness auto
termination
  by (relation "measure (\<lambda>(x, z, world). nat (WORLD_SIZE div 2 - z))") auto

function x_loop :: "int \<Rightarrow> Block list \<Rightarrow> Block list" where
  "x_loop x world =
     (if x < WORLD_SIZE div 2
      then x_loop (x + 1) (z_loop x (- WORLD_SIZE div 2) world)
      else world)"
  by pat_completeness auto
termination
  by (relation "measure (\<lambda>(x, world). nat (WORLD_SIZE div 2 - x))") auto

text \<open>The seven pushes of the tree, in the source's order.\<close>

definition tree :: "Block list" where
  "tree =
     [\<lparr>block_id = ''0-3-0'', block_pos = (0, 3, 0), block_type = WOOD\<rparr>,
      \<lparr>block_id = ''0-4-0'', block_pos = (0, 4, 0), block_type = WOOD\<rparr>,
      \<lparr>block_id = ''0-5-0'', block_pos = (0, 5, 0), block_type = LEAVES\<rparr>,
      \<lparr>block_id = ''1-4-0'', block_pos = (1, 4, 0), block_type = LEAVES\<rparr>,
      \<lparr>block_id = ''-1-4-0'', block_pos = (- 1, 4, 0), block_type = LEAVES\<rparr>,
      \<lparr>block_id = ''0-4-1'', block_pos = (0, 4, 1), block_type = LEAVES\<rparr>,
      \<lparr>block_id = ''0-4--1'', block_pos = (0, 4, - 1), block_type = LEAVES\<rparr>]"

definition generate :: "Block list" where
  "generate = x_loop (- WORLD_SIZE div 2) [] @ tree"

definition handleAddBlock :: "int \<times> int \<times> int \<Rightarrow> Block list \<Rightarrow> Block list" where
  "handleAddBlock p prev =
     (case p of (x, y, z) \<Rightarrow>
        prev @ [\<lparr>block_id = make_id x y z, block_pos = p, block_type = STONE\<rparr>])"

definition handleRemoveBlock :: "string \<Rightarrow> Block list \<Rightarrow> Block list" where
  "handleRemoveBlock i prev = filter (\<lambda>block. block_id block \<noteq> i) prev"

section \<open>Shooting (World, src/components/Game.tsx)\<close>

text \<open>
  What the effect reads and writes: the block list of \<^verbatim>\<open>Game\<close>, the control store and
  the \<^verbatim>\<open>lastShot\<close> state of \<^verbatim>\<open>World\<close> (initially 0), in milliseconds.
\<close>

record GameState =
  blocks :: "Block list"
  controls :: ControlsState
  lastShot :: int

text \<open>
  An object hit by the ray, reduced to its \<^verbatim>\<open>userData.id\<close>: absent, or a string, which
  passes the test \<^verbatim>\<open>if (intersect.object.userData.id)\<close> when it is not empty.
\<close>

type_synonym Intersection = "string option"

text \<open>
  One run of the fire effect. \<open>now1\<close> and \<open>now2\<close> are the two readings of \<^verbatim>\<open>Date.now()\<close>,
  in the cooldown test and in \<^verbatim>\<open>setLastShot\<close>; \<open>intersects\<close> is the ray caster's answer,
  nearest first.
\<close>

definition fire_effect :: "int \<Rightarrow> int \<Rightarrow> Intersection list \<Rightarrow> GameState \<Rightarrow> GameState" where
  "fire_effect now1 now2 intersects s =
     (if fire (controls s) \<and> now1 - lastShot s > 200 then
        (let s1 = s\<lparr>lastShot := now2\<rparr>;
             s2 = (case intersects of
                     [] \<Rightarrow> s1
                   | intersect # _ \<Rightarrow>
                       (case intersect of
                          None \<Rightarrow> s1
                        | Some i \<Rightarrow>
                            if i \<noteq> [] then s1\<lparr>blocks := handleRemoveBlock i (blocks s1)\<rparr>
                            else s1))
         in s2\<lparr>controls := store_set (no_change\<lparr>p_fire := Some False\<rparr>) (controls s2)\<rparr>)
      else s)"

section \<open>The generated world as the specification words it\<close>

text \<open>
  For world size \<open>N\<close> and every integer \<open>x\<close>, \<open>z\<close> in \<open>[-N/2, N/2)\<close>: STONE at \<open>y = 0\<close>,
  DIRT at \<open>y = 1\<close>, GRASS at \<open>y = 2\<close>.
\<close>

definition column :: "int \<Rightarrow> int \<Rightarrow> Block list" where
  "column x z = [new_block x 0 z STONE, new_block x 1 z DIRT, new_block x 2 z GRASS]"

definition terrain_spec :: "int \<Rightarrow> Block list" where
  "terrain_spec N =
     concat (map (\<lambda>x. concat (map (column x) [- (N div 2)..N div 2 - 1]))
                 [- (N div 2)..N div 2 - 1])"

text \<open>
  The tree centred at \<open>(0, y, 0)\<close>: WOOD at \<open>y = 3, 4\<close>, LEAVES at \<open>y = 5\<close> and at the four
  horizontal neighbours at \<open>y = 4\<close>, every id derived from the position.
\<close>

definition tree_spec :: "Block list" where
  "tree_spec =
     [new_block 0 3 0 WOOD, new_block 0 4 0 WOOD, new_block 0 5 0 LEAVES,
      new_block 1 4 0 LEAVES, new_block (- 1) 4 0 LEAVES,
      new_block 0 4 1 LEAVES, new_block 0 4 (- 1) LEAVES]"

definition generate_spec :: "int \<Rightarrow> Block list" where
  "generate_spec N = terrain_spec N @ tree_spec"

section \<open>The intent vector as the specification words it\<close>




text \<open>The recursive equations of the printer and of the loops are unfolded by hand.\<close>

declare nat_toString.simps [simp del] z_loop.simps [simp del] x_loop.simps [simp del]

section \<open>The control store and the joystick\<close>

text \<open>
  C10. The setter merges a partial update: every flag that the argument does not mention
  keeps its previous value; clearing only \<open>fire\<close> changes no other flag.
\<close>

theorem store_set_merges:
  "(p_forward p = None \<longrightarrow> forward (store_set p s) = forward s) \<and>
   (p_backward p = None \<longrightarrow> backward (store_set p s) = backward s) \<and>
   (p_left p = None \<longrightarrow> left (store_set p s) = left s) \<and>
   (p_right p = None \<longrightarrow> right (store_set p s) = right s) \<and>
   (p_jump p = None \<longrightarrow> jump (store_set p s) = jump s) \<and>
   (p_fire p = None \<longrightarrow> fire (store_set p s) = fire s) \<and>
   store_set (no_change\<lparr>p_fire := Some False\<rparr>) s = s\<lparr>fire := False\<rparr>"
  by (simp add: store_set_def merge_flag_def no_change_def)

theorem store_set_merges_witness:
  "p_forward (no_change\<lparr>p_fire := Some False\<rparr>) = None \<and>
   forward (store_set (no_change\<lparr>p_fire := Some False\<rparr>)
      \<lparr>forward = True, backward = False, left = True, right = False, jump = True, fire = True\<rparr>)
     = True \<and>
   store_set (no_change\<lparr>p_fire := Some False\<rparr>)
      \<lparr>forward = True, backward = False, left = True, right = False, jump = True, fire = True\<rparr>
    = \<lparr>forward = True, backward = False, left = True, right = False, jump = True, fire = False\<rparr>"
  using store_set_merges [of "no_change\<lparr>p_fire := Some False\<rparr>"
      "\<lparr>forward = True, backward = False, left = True, right = False, jump = True, fire = True\<rparr>"]
  by (simp add: no_change_def)

text \<open>
  C9. For a joystick angle \<open>a\<close> in \<open>[0, 360)\<close> and a force above 0.2 the move handler sets
  \<open>right\<close> iff \<open>a\<close> is in \<open>[0, 45]\<close> or \<open>[315, 360)\<close>, \<open>forward\<close> iff \<open>a\<close> is in \<open>(45, 135)\<close>,
  \<open>left\<close> iff \<open>a\<close> is in \<open>[135, 225]\<close> and \<open>backward\<close> iff \<open>a\<close> is in \<open>(225, 315)\<close>, and
  leaves \<open>jump\<close> and \<open>fire\<close> alone; with a force of at most 0.2 it changes nothing; an
  angle of 90 with force 0.5 sets \<open>forward\<close> and clears the other three directions.
\<close>

theorem joystick_move_partition:
  "(0 \<le> a \<and> a < 360 \<and> 0.2 < f \<longrightarrow>
      (right (joystick_move (Fin a) (Fin f) s) \<longleftrightarrow> a \<in> {0..45} \<union> {315..<360}) \<and>
      (forward (joystick_move (Fin a) (Fin f) s) \<longleftrightarrow> a \<in> {45<..<135}) \<and>
      (left (joystick_move (Fin a) (Fin f) s) \<longleftrightarrow> a \<in> {135..225}) \<and>
      (backward (joystick_move (Fin a) (Fin f) s) \<longleftrightarrow> a \<in> {225<..<315}) \<and>
      jump (joystick_move (Fin a) (Fin f) s) = jump s \<and>
      fire (joystick_move (Fin a) (Fin f) s) = fire s) \<and>
   (f \<le> 0.2 \<longrightarrow> joystick_move d (Fin f) s = s) \<and>
   joystick_move (Fin 90) (Fin 0.5) s =
     s\<lparr>forward := True, backward := False, left := False, right := False\<rparr>"
  by (auto simp add: joystick_move_def store_set_def merge_flag_def no_change_def jgt_def jge_def)

theorem joystick_move_partition_witness:
  "(0::real) \<le> 100 \<and> (100::real) < 360 \<and> (0.2::real) < 0.5 \<and>
   forward (joystick_move (Fin 100) (Fin 0.5) useStore_init) \<and>
   \<not> right (joystick_move (Fin 100) (Fin 0.5) useStore_init) \<and>
   \<not> left (joystick_move (Fin 100) (Fin 0.5) useStore_init) \<and>
   \<not> backward (joystick_move (Fin 100) (Fin 0.5) useStore_init) \<and>
   (0.1::real) \<le> 0.2 \<and> joystick_move (Fin 100) (Fin 0.1) useStore_init = useStore_init"
  using joystick_move_partition [where a = 100 and f = "0.5" and s = useStore_init]
        joystick_move_partition [where f = "0.1" and s = useStore_init and d = "Fin 100"]
  by simp

section \<open>Shooting\<close>

text \<open>A run of the effect inside the cooldown, or with the flag down, changes nothing.\<close>

lemma fire_effect_idle:
  "\<not> fire (controls s) \<or> now1 - lastShot s \<le> 200 \<Longrightarrow> fire_effect now1 now2 hits s = s"
  by (auto simp add: fire_effect_def)

lemma fire_effect_lastShot:
  "fire (controls s) \<and> 200 < now1 - lastShot s \<Longrightarrow>
   lastShot (fire_effect now1 now2 hits s) = now2"
  by (simp add: fire_effect_def Let_def split: list.splits option.splits)

text \<open>
  C8. Whenever the effect processes a fire event (flag set, cooldown elapsed), the fire
  flag is cleared afterwards and the other flags are kept, whatever the ray hit: nothing,
  an object without an id, or a block.
\<close>

theorem fire_effect_clears_fire:
  "fire (controls s) \<and> 200 < now1 - lastShot s \<Longrightarrow>
   controls (fire_effect now1 now2 intersects s) = (controls s)\<lparr>fire := False\<rparr>"
  by (simp add: fire_effect_def Let_def store_set_def merge_flag_def no_change_def
      split: list.splits option.splits)

theorem fire_effect_clears_fire_witness:
  "fire (controls \<lparr>blocks = tree, controls = useStore_init\<lparr>fire := True\<rparr>, lastShot = 0\<rparr>) \<and>
   (200::int) < 1000 - lastShot \<lparr>blocks = tree, controls = useStore_init\<lparr>fire := True\<rparr>, lastShot = 0\<rparr> \<and>
   controls (fire_effect 1000 1000 [None]
      \<lparr>blocks = tree, controls = useStore_init\<lparr>fire := True\<rparr>, lastShot = 0\<rparr>) = useStore_init"
  using fire_effect_clears_fire [of "\<lparr>blocks = tree, controls = useStore_init\<lparr>fire := True\<rparr>, lastShot = 0\<rparr>"
      1000 1000 "[None]"]
  by (simp add: useStore_init_def)

text \<open>
  C6. If a shot was processed and recorded at time \<open>now2\<close>, a later run of the effect at a
  time \<open>t'\<close> with \<open>t' - now2 \<le> 200\<close> changes nothing, whatever the control flags \<open>c\<close> are
  by then (the fire flag may be set again) and whatever the ray would hit; the same holds
  counted from the first clock reading \<open>now1\<close> of the shot when the clock did not run
  backwards between the two readings.
\<close>

theorem fire_cooldown:
  "fire (controls s) \<and> 200 < now1 - lastShot s \<Longrightarrow>
   lastShot (fire_effect now1 now2 hits s) = now2 \<and>
   (t' - now2 \<le> 200 \<longrightarrow>
      fire_effect t' t'' hits' ((fire_effect now1 now2 hits s)\<lparr>controls := c\<rparr>)
        = (fire_effect now1 now2 hits s)\<lparr>controls := c\<rparr>) \<and>
   (now1 \<le> now2 \<and> t' - now1 \<le> 200 \<longrightarrow>
      blocks (fire_effect t' t'' hits' ((fire_effect now1 now2 hits s)\<lparr>controls := c\<rparr>))
        = blocks (fire_effect now1 now2 hits s))"
proof -
  assume a: "fire (controls s) \<and> 200 < now1 - lastShot s"
  have l: "lastShot (fire_effect now1 now2 hits s) = now2"
    using a by (rule fire_effect_lastShot)
  show ?thesis using l by (auto simp: fire_effect_idle)
qed

theorem fire_cooldown_witness:
  "fire (controls \<lparr>blocks = tree, controls = useStore_init\<lparr>fire := True\<rparr>, lastShot = 0\<rparr>) \<and>
   (200::int) < 1000 - lastShot \<lparr>blocks = tree, controls = useStore_init\<lparr>fire := True\<rparr>, lastShot = 0\<rparr> \<and>
   (1200::int) - 1000 \<le> 200 \<and>
   blocks (fire_effect 1200 1200 [Some ''0-4-0'']
      ((fire_effect 1000 1000 [Some ''0-5-0'']
          \<lparr>blocks = tree, controls = useStore_init\<lparr>fire := True\<rparr>, lastShot = 0\<rparr>)
       \<lparr>controls := useStore_init\<lparr>fire := True\<rparr>\<rparr>))
     = blocks (fire_effect 1000 1000 [Some ''0-5-0'']
          \<lparr>blocks = tree, controls = useStore_init\<lparr>fire := True\<rparr>, lastShot = 0\<rparr>)"
  using fire_cooldown [of "\<lparr>blocks = tree, controls = useStore_init\<lparr>fire := True\<rparr>, lastShot = 0\<rparr>"
      1000 1000 "[Some ''0-5-0'']" 1200 1200 "[Some ''0-4-0'']" "useStore_init\<lparr>fire := True\<rparr>"]
  by simp

section \<open>Adding and removing blocks\<close>

text \<open>Adding a block and removing its id removes every block of that id.\<close>

lemma add_then_remove:
  "handleRemoveBlock (make_id x y z) (handleAddBlock (x, y, z) w)
     = handleRemoveBlock (make_id x y z) w"
  by (simp add: handleRemoveBlock_def handleAddBlock_def)

text \<open>
  C2, as stated, fails where the id of the added position is already in the world: the
  removal takes the old block with the new one. In the generated world, adding a block at
  the foot of the tree, \<open>(0, 3, 0)\<close>, and removing its id leaves a world without the trunk
  block that was there before.
\<close>

theorem add_remove_collision:
  "set (handleRemoveBlock (make_id 0 3 0) (handleAddBlock (0, 3, 0) generate)) \<noteq> set generate"
proof -
  have i: "make_id 0 3 0 = ''0-3-0''"
    by (simp add: make_id_def number_toString_def nat_toString.simps digit_char_def)
  have "\<lparr>block_id = ''0-3-0'', block_pos = (0, 3, 0), block_type = WOOD\<rparr> \<in> set generate"
    by (simp add: generate_def tree_def)
  moreover have "\<lparr>block_id = ''0-3-0'', block_pos = (0, 3, 0), block_type = WOOD\<rparr>
      \<notin> set (handleRemoveBlock (make_id 0 3 0) (handleAddBlock (0, 3, 0) generate))"
    by (simp add: i handleRemoveBlock_def)
  ultimately show ?thesis by metis
qed

text \<open>
  C2, amended. For every world and every position whose derived id does not occur in the
  world, adding a block there and then removing that id gives back the world as it was.
\<close>

theorem add_remove_roundtrip:
  "make_id x y z \<notin> block_id ` set w \<Longrightarrow>
   handleRemoveBlock (make_id x y z) (handleAddBlock (x, y, z) w) = w"
  by (force simp add: handleRemoveBlock_def handleAddBlock_def filter_id_conv)

theorem add_remove_roundtrip_witness:
  "make_id 2 3 0 \<notin> block_id ` set tree \<and>
   handleRemoveBlock (make_id 2 3 0) (handleAddBlock (2, 3, 0) tree) = tree"
proof -
  have h: "make_id 2 3 0 \<notin> block_id ` set tree"
    by (simp add: tree_def make_id_def number_toString_def nat_toString.simps digit_char_def)
  show ?thesis using h add_remove_roundtrip [OF h] by simp
qed

section \<open>Block ids\<close>

lemma digit_char_not_minus: "d < 10 \<Longrightarrow> digit_char d \<noteq> CHR ''-''"
proof -
  assume "d < 10"
  then have "d \<in> {0,1,2,3,4,5,6,7,8,9}" by auto
  then show ?thesis by (auto simp: digit_char_def)
qed

lemma digit_char_inj: "d < 10 \<Longrightarrow> e < 10 \<Longrightarrow> digit_char d = digit_char e \<Longrightarrow> d = e"
proof -
  assume "d < 10" "e < 10" and eq: "digit_char d = digit_char e"
  have dist: "distinct ''0123456789''" by simp
  have len: "length ''0123456789'' = 10" by simp
  from eq have "''0123456789'' ! d = ''0123456789'' ! e" by (simp add: digit_char_def)
  with dist len \<open>d < 10\<close> \<open>e < 10\<close> show "d = e"
    by (metis nth_eq_iff_index_eq)
qed

lemma nat_toString_nonempty: "nat_toString n \<noteq> []"
  by (subst nat_toString.simps) simp

lemma nat_toString_no_minus: "CHR ''-'' \<notin> set (nat_toString n)"
proof (induction n rule: nat_toString.induct)
  case (1 n)
  show ?case
  proof (cases "10 \<le> n")
    case True
    then show ?thesis using 1 digit_char_not_minus [of "n mod 10"]
      by (subst nat_toString.simps) auto
  next
    case False
    then show ?thesis using digit_char_not_minus [of n]
      by (subst nat_toString.simps) auto
  qed
qed

lemma nat_toString_inj: "nat_toString n = nat_toString m \<Longrightarrow> n = m"
proof (induction n arbitrary: m rule: nat_toString.induct)
  case (1 n)
  show ?case
  proof (cases "10 \<le> n")
    case n10: True
    show ?thesis
    proof (cases "10 \<le> m")
      case True
      from 1(2) n10 True
      have "nat_toString (n div 10) @ [digit_char (n mod 10)]
              = nat_toString (m div 10) @ [digit_char (m mod 10)]"
        by (simp add: nat_toString.simps [of n] nat_toString.simps [of m])
      then have a: "nat_toString (n div 10) = nat_toString (m div 10)"
        and b: "digit_char (n mod 10) = digit_char (m mod 10)" by auto
      from 1(1) [OF n10 a] have "n div 10 = m div 10" .
      moreover from b have "n mod 10 = m mod 10" by (intro digit_char_inj) auto
      ultimately show ?thesis by (metis div_mult_mod_eq)
    next
      case False
      from 1(2) n10 False
      have "nat_toString (n div 10) @ [digit_char (n mod 10)] = [digit_char m]"
        by (simp add: nat_toString.simps [of n] nat_toString.simps [of m])
      then show ?thesis using nat_toString_nonempty [of "n div 10"] by simp
    qed
  next
    case n10: False
    show ?thesis
    proof (cases "10 \<le> m")
      case True
      from 1(2) n10 True
      have "[digit_char n] = nat_toString (m div 10) @ [digit_char (m mod 10)]"
        by (simp add: nat_toString.simps [of n] nat_toString.simps [of m])
      then show ?thesis using nat_toString_nonempty [of "m div 10"] by simp
    next
      case False
      from 1(2) n10 False have "digit_char n = digit_char m"
        by (simp add: nat_toString.simps [of n] nat_toString.simps [of m])
      then show ?thesis using n10 False by (intro digit_char_inj) auto
    qed
  qed
qed

lemma sep_unique:
  "CHR ''-'' \<notin> set u \<Longrightarrow> CHR ''-'' \<notin> set v \<Longrightarrow>
   u @ CHR ''-'' # r = v @ CHR ''-'' # r' \<Longrightarrow> u = v \<and> r = r'"
proof (induction u arbitrary: v)
  case Nil
  then show ?case by (cases v) auto
next
  case (Cons c u)
  then show ?case by (cases v) auto
qed

lemma number_toString_sep:
  "number_toString a @ CHR ''-'' # r = number_toString b @ CHR ''-'' # r' \<Longrightarrow> a = b \<and> r = r'"
proof -
  assume eq: "number_toString a @ CHR ''-'' # r = number_toString b @ CHR ''-'' # r'"
  have hd_digit: "\<And>n. hd (nat_toString n) \<noteq> CHR ''-''"
    using nat_toString_no_minus nat_toString_nonempty by (metis hd_in_set)
  have hd_app: "\<And>n t. hd (nat_toString n @ t) = hd (nat_toString n)"
    using nat_toString_nonempty by simp
  consider (nn) "a < 0" "b < 0" | (np) "a < 0" "\<not> b < 0" | (pn) "\<not> a < 0" "b < 0"
    | (pp) "\<not> a < 0" "\<not> b < 0" by blast
  then show ?thesis
  proof cases
    case nn
    with eq have "nat_toString (nat (- a)) @ CHR ''-'' # r = nat_toString (nat (- b)) @ CHR ''-'' # r'"
      by (simp add: number_toString_def)
    from sep_unique [OF nat_toString_no_minus nat_toString_no_minus this]
    have "nat (- a) = nat (- b)" "r = r'" using nat_toString_inj by auto
    with nn show ?thesis by simp
  next
    case np
    with eq have "CHR ''-'' # nat_toString (nat (- a)) @ CHR ''-'' # r = nat_toString (nat b) @ CHR ''-'' # r'"
      by (simp add: number_toString_def)
    then have "CHR ''-'' = hd (nat_toString (nat b) @ CHR ''-'' # r')" by (metis list.sel(1))
    then show ?thesis using hd_digit hd_app by metis
  next
    case pn
    with eq have "nat_toString (nat a) @ CHR ''-'' # r = CHR ''-'' # nat_toString (nat (- b)) @ CHR ''-'' # r'"
      by (simp add: number_toString_def)
    then have "CHR ''-'' = hd (nat_toString (nat a) @ CHR ''-'' # r)" by (metis list.sel(1))
    then show ?thesis using hd_digit hd_app by metis
  next
    case pp
    with eq have "nat_toString (nat a) @ CHR ''-'' # r = nat_toString (nat b) @ CHR ''-'' # r'"
      by (simp add: number_toString_def)
    from sep_unique [OF nat_toString_no_minus nat_toString_no_minus this]
    have "nat a = nat b" "r = r'" using nat_toString_inj by auto
    with pp show ?thesis by simp
  qed
qed

lemma number_toString_inj: "number_toString a = number_toString b \<Longrightarrow> a = b"
  using number_toString_sep [of a "[]" b "[]"] by simp

lemma make_id_inj:
  "make_id x y z = make_id x' y' z' \<Longrightarrow> x = x' \<and> y = y' \<and> z = z'"
proof -
  assume eq: "make_id x y z = make_id x' y' z'"
  then have "number_toString x @ CHR ''-'' # (number_toString y @ CHR ''-'' # number_toString z)
      = number_toString x' @ CHR ''-'' # (number_toString y' @ CHR ''-'' # number_toString z')"
    by (simp add: make_id_def)
  from number_toString_sep [OF this]
  have x: "x = x'" and rest: "number_toString y @ CHR ''-'' # number_toString z
      = number_toString y' @ CHR ''-'' # number_toString z'" by auto
  from number_toString_sep [OF rest] have "y = y'" "number_toString z = number_toString z'" by auto
  with x show ?thesis using number_toString_inj by auto
qed


section \<open>World generation\<close>

lemma z_loop_eq:
  "z \<le> WORLD_SIZE div 2 \<Longrightarrow>
   z_loop x z world = world @ concat (map (column x) [z..WORLD_SIZE div 2 - 1])"
proof (induction x z world rule: z_loop.induct)
  case (1 x z world)
  show ?case
  proof (cases "z < WORLD_SIZE div 2")
    case True
    then have up: "[z..WORLD_SIZE div 2 - 1] = z # [z + 1..WORLD_SIZE div 2 - 1]"
      by (simp add: upto_rec1)
    from True have "z + 1 \<le> WORLD_SIZE div 2" by simp
    from 1(1) [OF True this] True up show ?thesis
      by (subst z_loop.simps) (simp add: column_def [abs_def])
  next
    case False
    with 1(2) have "z = WORLD_SIZE div 2" by simp
    then show ?thesis by (subst z_loop.simps) simp
  qed
qed

lemma x_loop_eq:
  "x \<le> WORLD_SIZE div 2 \<Longrightarrow>
   x_loop x world =
     world @ concat (map (\<lambda>x. concat (map (column x) [- WORLD_SIZE div 2..WORLD_SIZE div 2 - 1]))
                         [x..WORLD_SIZE div 2 - 1])"
proof (induction x world rule: x_loop.induct)
  case (1 x world)
  show ?case
  proof (cases "x < WORLD_SIZE div 2")
    case True
    then have up: "[x..WORLD_SIZE div 2 - 1] = x # [x + 1..WORLD_SIZE div 2 - 1]"
      by (simp add: upto_rec1)
    have lo: "- WORLD_SIZE div 2 \<le> WORLD_SIZE div 2" by (simp add: WORLD_SIZE_def)
    from True have "x + 1 \<le> WORLD_SIZE div 2" by simp
    from 1(1) [OF True this] True up show ?thesis
      by (subst x_loop.simps) (simp add: z_loop_eq [OF lo])
  next
    case False
    with 1(2) have "x = WORLD_SIZE div 2" by simp
    then show ?thesis by (subst x_loop.simps) simp
  qed
qed

lemma tree_eq: "tree = tree_spec"
  by (simp add: tree_def tree_spec_def new_block_def make_id_def number_toString_def
      nat_toString.simps digit_char_def)

lemma generate_eq: "generate = generate_spec WORLD_SIZE"
proof -
  have "- WORLD_SIZE div 2 \<le> WORLD_SIZE div 2" by (simp add: WORLD_SIZE_def)
  from x_loop_eq [OF this, of "[]"] show ?thesis
    by (simp add: generate_def generate_spec_def terrain_spec_def tree_eq WORLD_SIZE_def)
qed

lemma length_concat_map_const:
  "(\<And>x. x \<in> set xs \<Longrightarrow> length (f x) = c) \<Longrightarrow> length (concat (map f xs)) = c * length xs"
  by (induction xs) auto

lemma length_terrain_spec: "0 \<le> N \<Longrightarrow> length (terrain_spec N) = 3 * nat (2 * (N div 2)) ^ 2"
proof -
  assume N: "0 \<le> N"
  have col: "\<And>x z. length (column x z) = 3" by (simp add: column_def)
  have row: "\<And>x. length (concat (map (column x) [- (N div 2)..N div 2 - 1])) = 3 * nat (2 * (N div 2))"
    using N by (subst length_concat_map_const [where c = 3]) (auto simp: col)
  show ?thesis unfolding terrain_spec_def
    using N by (subst length_concat_map_const [where c = "3 * nat (2 * (N div 2))"])
      (auto simp: row power2_eq_square)
qed

lemma set_terrain_spec:
  "set (terrain_spec N)
     = (\<Union>x \<in> {- (N div 2)..<N div 2}. \<Union>z \<in> {- (N div 2)..<N div 2}. set (column x z))"
proof -
  have "{- (N div 2)..N div 2 - 1} = {- (N div 2)..<N div 2}" by auto
  then show ?thesis by (simp add: terrain_spec_def)
qed

text \<open>
  C4. The generated world is the sequence of the specification for \<open>N = 32\<close>: for every
  integer \<open>x\<close>, \<open>z\<close> in \<open>[-16, 16)\<close> the blocks STONE at \<open>y = 0\<close>, DIRT at \<open>y = 1\<close> and
  GRASS at \<open>y = 2\<close>, then the seven blocks of the tree; it has \<open>3 N\<^sup>2 + 7 = 3079\<close> blocks.
  (A definition has one value, so every call produces this same sequence.)
\<close>

theorem generate_complete:
  "generate = generate_spec WORLD_SIZE \<and> WORLD_SIZE = 32 \<and>
   set generate
     = (\<Union>x \<in> {- 16..<16}. \<Union>z \<in> {- 16..<16}.
          {new_block x 0 z STONE, new_block x 1 z DIRT, new_block x 2 z GRASS}) \<union> set tree \<and>
   length tree = 7 \<and>
   int (length generate) = 3 * WORLD_SIZE\<^sup>2 + 7 \<and> length generate = 3079"
proof -
  have len: "length generate = 3079"
    using length_terrain_spec [of WORLD_SIZE]
    by (simp add: generate_eq generate_spec_def tree_spec_def WORLD_SIZE_def)
  have st: "set generate
     = (\<Union>x \<in> {- 16..<16}. \<Union>z \<in> {- 16..<16}.
          {new_block x 0 z STONE, new_block x 1 z DIRT, new_block x 2 z GRASS}) \<union> set tree"
    by (simp add: generate_eq generate_spec_def set_terrain_spec tree_eq WORLD_SIZE_def column_def)
  have ws: "WORLD_SIZE = 32" by (simp add: WORLD_SIZE_def)
  have lt: "length tree = 7" by (simp add: tree_def)
  have "int (length generate) = 3 * WORLD_SIZE\<^sup>2 + 7" by (simp add: len ws)
  with generate_eq ws st lt len show ?thesis by blast
qed

lemma distinct_concat_map:
  "distinct xs \<Longrightarrow> (\<And>x. x \<in> set xs \<Longrightarrow> distinct (f x)) \<Longrightarrow>
   (\<And>x y. x \<in> set xs \<Longrightarrow> y \<in> set xs \<Longrightarrow> x \<noteq> y \<Longrightarrow> set (f x) \<inter> set (f y) = {}) \<Longrightarrow>
   distinct (concat (map f xs))"
  by (induction xs) auto

lemma block_pos_column:
  "map block_pos (column x z) = [(x, 0, z), (x, 1, z), (x, 2, z)]"
  by (simp add: column_def new_block_def)

lemma distinct_pos_terrain: "distinct (map block_pos (terrain_spec N))"
proof -
  have row: "distinct (concat (map (\<lambda>z. [(x, 0::int, z), (x, 1, z), (x, 2, z)]) zs))"
    if "distinct zs" for x :: int and zs :: "int list"
    using that by (rule distinct_concat_map) auto
  have "distinct (concat (map (\<lambda>x. concat (map (\<lambda>z. [(x, 0::int, z), (x, 1, z), (x, 2, z)]) zs)) xs))"
    if "distinct zs" "distinct xs" for xs zs :: "int list"
    using that(2) by (rule distinct_concat_map) (auto simp: row [OF that(1)])
  then show ?thesis
    by (simp add: terrain_spec_def map_concat comp_def block_pos_column)
qed

lemma terrain_pos_low: "b \<in> set (terrain_spec N) \<Longrightarrow> fst (snd (block_pos b)) \<le> 2"
  by (auto simp: terrain_spec_def column_def new_block_def)

lemma distinct_pos_generate_spec: "distinct (map block_pos (generate_spec N))"
proof -
  have t: "distinct (map block_pos tree_spec)"
    by (simp add: tree_spec_def new_block_def)
  have high: "\<And>b. b \<in> set tree_spec \<Longrightarrow> 3 \<le> fst (snd (block_pos b))"
    by (auto simp: tree_spec_def new_block_def)
  have "block_pos ` set (terrain_spec N) \<inter> block_pos ` set tree_spec = {}"
    using terrain_pos_low high by fastforce
  then show ?thesis
    by (simp add: generate_spec_def distinct_pos_terrain t)
qed

lemma id_of_pos_generate_spec:
  "b \<in> set (generate_spec N) \<Longrightarrow> block_id b = (case block_pos b of (x, y, z) \<Rightarrow> make_id x y z)"
  by (auto simp: generate_spec_def terrain_spec_def tree_spec_def column_def new_block_def)

lemma distinct_ids_generate_spec: "distinct (map block_id (generate_spec N))"
proof -
  have "map block_id (generate_spec N)
          = map (\<lambda>p. case p of (x, y, z) \<Rightarrow> make_id x y z) (map block_pos (generate_spec N))"
    using id_of_pos_generate_spec by simp
  moreover have "inj (\<lambda>p. case p of (x, y, z) \<Rightarrow> make_id x y z)"
    by (rule injI) (auto dest: make_id_inj)
  then have "inj_on (\<lambda>p. case p of (x, y, z) \<Rightarrow> make_id x y z) (set (map block_pos (generate_spec N)))"
    by (rule inj_on_subset) simp
  ultimately show ?thesis
    using distinct_pos_generate_spec [of N] by (simp only: distinct_map)
qed

text \<open>
  C5. The ids of the generated world are pairwise different: no id string, built as
  \<open>x-y-z\<close> from the integer coordinates (negative ones included), occurs twice.
\<close>

theorem generate_ids_distinct: "distinct (map block_id generate)"
  by (simp add: generate_eq distinct_ids_generate_spec)

section \<open>The player\<close>

lemmas vec_defs = direction_def applyEuler_def setFromEuler_def applyQuaternion_def normalize_def
  divideScalar_def multiplyScalar_def length_vec_def subVectors_def new_Vector3_def
  frontVector_def sideVector_def b2n_def jsub_def jor_def PLAYER_SPEED_def Let_def

text \<open>Dividing zero by zero gives NaN: only the guard keeps it out of \<^const>\<open>normalize\<close>.\<close>

lemma unguarded_zero_division:
  "divideScalar (length_vec (new_Vector3 (Fin 0) (Fin 0) (Fin 0))) (new_Vector3 (Fin 0) (Fin 0) (Fin 0))
     = new_Vector3 NaN NaN NaN"
  by (simp add: vec_defs signed_inf_def)

text \<open>
  C7. With the four directional flags false the combined vector has length zero, the
  normalisation divides by 1 instead and returns the zero vector, and for every finite
  camera rotation the intent vector is the zero vector: no component is NaN.
\<close>

theorem zero_input_zero_intent:
  "\<not> forward c \<and> \<not> backward c \<and> \<not> left c \<and> \<not> right c \<Longrightarrow>
   length_vec (subVectors (frontVector c) (sideVector c)) = Fin 0 \<and>
   jor (length_vec (subVectors (frontVector c) (sideVector c))) (Fin 1) = Fin 1 \<and>
   normalize (subVectors (frontVector c) (sideVector c)) = new_Vector3 (Fin 0) (Fin 0) (Fin 0) \<and>
   direction c \<lparr>e_x = Fin x, e_y = Fin y, e_z = Fin z, e_order = ord\<rparr>
     = new_Vector3 (Fin 0) (Fin 0) (Fin 0)"
  by (cases ord) (simp_all add: vec_defs)

theorem zero_input_zero_intent_witness:
  "\<not> forward useStore_init \<and> \<not> backward useStore_init \<and> \<not> left useStore_init \<and>
   \<not> right useStore_init \<and>
   direction useStore_init \<lparr>e_x = Fin 1, e_y = Fin 2, e_z = Fin 3, e_order = YXZ\<rparr>
     = new_Vector3 (Fin 0) (Fin 0) (Fin 0)"
  using zero_input_zero_intent [of useStore_init 1 2 3 YXZ]
  by (simp add: useStore_init_def)

text \<open>
  What one run of the frame callback leaves in the body. With the physics library's rigid
  body the call of \<^verbatim>\<open>parent()\<close> throws: the run ends there, after the first
  \<^verbatim>\<open>setLinvel\<close>, and neither the ray check nor the jump branch is reached.
\<close>

lemma useFrame_no_parent:
  "parent body = None \<Longrightarrow>
   useFrame c rot castRay (Some body)
     = Thrown TypeError
         (Some (body\<lparr>linvel := new_Vector3 (vec_x (direction c rot)) (vec_y (linvel body))
                                               (vec_z (direction c rot))\<rparr>))"
  by (simp add: useFrame_def setLinvel_def Let_def)

text \<open>
  On an object that does have the method, and with a ray query that returns: the jump
  branch writes the velocity read at the start of the run beside the jump speed.
\<close>

lemma useFrame_jump:
  "parent body = Some world \<and> castRay world (translation body) = Inr (Some hit) \<and> jump c \<Longrightarrow>
   useFrame c rot castRay (Some body)
     = Returned
         (Some (body\<lparr>linvel := new_Vector3 (vec_x (linvel body)) (Fin 6) (vec_z (linvel body))\<rparr>))"
  by (simp add: useFrame_def setLinvel_def JUMP_FORCE_def Let_def)

lemma useFrame_no_jump:
  "parent body = Some world \<and> castRay world (translation body) = Inr ray \<and>
   \<not> (jump c \<and> ray \<noteq> None) \<Longrightarrow>
   useFrame c rot castRay (Some body)
     = Returned
         (Some (body\<lparr>linvel := new_Vector3 (vec_x (direction c rot)) (vec_y (linvel body))
                                               (vec_z (direction c rot))\<rparr>))"
  by (auto simp add: useFrame_def setLinvel_def Let_def)

text \<open>
  C1. The player's rigid body at rest, standing on the grass layer (its centre 0.9 above
  the surface at height 2.5, within the ray's length 1.1), \<open>forward\<close> and \<open>jump\<close> held,
  the camera unrotated, and a ray query that would report the ground. The run throws a
  TypeError at the call of \<^verbatim>\<open>parent()\<close> and leaves the velocity \<open>(0, 0, -5)\<close>: the
  horizontal components are the intent of the tick, but the vertical component is the old
  one, 0, and not the jump speed 6.
\<close>

theorem useFrame_jump_not_reached:
  "useFrame \<lparr>forward = True, backward = False, left = False, right = False, jump = True, fire = False\<rparr>
      \<lparr>e_x = Fin 0, e_y = Fin 0, e_z = Fin 0, e_order = XYZ\<rparr>
      (\<lambda>world origin. Inr (Some ()))
      (Some \<lparr>linvel = new_Vector3 (Fin 0) (Fin 0) (Fin 0),
             translation = new_Vector3 (Fin 0) (Fin 3.4) (Fin 0),
             parent = (None :: unit option)\<rparr>)
    = Thrown TypeError
        (Some \<lparr>linvel = new_Vector3 (Fin 0) (Fin 0) (Fin (- 5)),
               translation = new_Vector3 (Fin 0) (Fin 3.4) (Fin 0),
               parent = None\<rparr>) \<and>
   direction \<lparr>forward = True, backward = False, left = False, right = False, jump = True, fire = False\<rparr>
      \<lparr>e_x = Fin 0, e_y = Fin 0, e_z = Fin 0, e_order = XYZ\<rparr>
    = new_Vector3 (Fin 0) (Fin 0) (Fin (- 5)) \<and>
   JUMP_FORCE = Fin 6"
  by (simp add: useFrame_def setLinvel_def JUMP_FORCE_def vec_defs)

section \<open>The intent vector\<close>




end
